theory Spec2Isabelle
  imports Complex_Main
begin

section \<open>The hit-rate counters of CubeFileOpenInterceptor\<close>

text \<open>
  The class \<^verbatim>\<open>CubeFileOpenInterceptor\<close> of
  \<^verbatim>\<open>cube_torch/cube_file_open_interceptor.py\<close> keeps its counters in class
  attributes and changes them through three static methods, \<^verbatim>\<open>set_params\<close>,
  \<^verbatim>\<open>add_count\<close> and \<^verbatim>\<open>print_hit_rate\<close>. The class attributes are one
  record here, and every method takes the record and returns the new one.

  Python's integers are unbounded, so the counters are \<^typ>\<open>int\<close>. The preload time is a
  Python number (an \<^verbatim>\<open>int\<close> or a finite \<^verbatim>\<open>float\<close>); every such number is a
  rational, and it is a \<^typ>\<open>rat\<close> here, with exact addition and division: the rounding
  of floating-point arithmetic, its infinities and its overflow are outside this model.
  The attributes \<^verbatim>\<open>_instance\<close> and \<^verbatim>\<open>timer\<close> are read and written by none of
  the three methods and are left out; the leading underscore of the
  \<^verbatim>\<open>_last_cycle_\<close> attributes is dropped.
\<close>

subsection \<open>Class attributes\<close>

record interceptor =
  cube_root_dir :: string
  cube_cache_dir :: string
  last_cycle_hit_count :: int
  last_cycle_miss_count :: int
  last_cycle_preload_time :: rat
  total_count :: int
  total_hit_count :: int
  total_miss_count :: int
  total_preload_time :: rat
  should_exit :: bool

text \<open>The values the class body assigns (lines 6 to 15).\<close>

definition initial :: interceptor where
  "initial =
     \<lparr>cube_root_dir = ''/tmp'',
      cube_cache_dir = ''user memory'',
      last_cycle_hit_count = 0,
      last_cycle_miss_count = 0,
      last_cycle_preload_time = 0,
      total_count = 0,
      total_hit_count = 0,
      total_miss_count = 0,
      total_preload_time = 0,
      should_exit = False\<rparr>"

subsection \<open>set\_params and add\_count\<close>

definition set_params :: "string \<Rightarrow> interceptor \<Rightarrow> interceptor" where
  "set_params root_dir s = s\<lparr>cube_root_dir := root_dir\<rparr>"

definition add_count :: "bool \<Rightarrow> rat \<Rightarrow> interceptor \<Rightarrow> interceptor" where
  "add_count is_cache preload_time s =
     (if is_cache
      then s\<lparr>last_cycle_hit_count := last_cycle_hit_count s + 1,
             last_cycle_preload_time := last_cycle_preload_time s + preload_time\<rparr>
      else s\<lparr>last_cycle_miss_count := last_cycle_miss_count s + 1\<rparr>)"

subsection \<open>Rendering numbers\<close>

text \<open>
  \<^verbatim>\<open>str.format\<close> renders an integer argument of \<^verbatim>\<open>{}\<close> in decimal, and a
  float argument of \<^verbatim>\<open>{:.2f}\<close> with two digits after the point, rounded to the
  nearest hundredth, a tie going to the even neighbour, and with the sign kept in front.
\<close>

definition digit :: "nat \<Rightarrow> char" where
  "digit d = ''0123456789'' ! (d mod 10)"

function str_nat :: "nat \<Rightarrow> string" where
  "str_nat n = (if n < 10 then [digit n] else str_nat (n div 10) @ [digit n])"
  by pat_completeness auto
termination
  by (relation "measure id") auto

declare str_nat.simps [simp del]

definition str_int :: "int \<Rightarrow> string" where
  "str_int i = (if i < 0 then ''-'' @ str_nat (nat (- i)) else str_nat (nat i))"

definition round_half_even :: "rat \<Rightarrow> int" where
  "round_half_even x =
     (let f = \<lfloor>x\<rfloor>; d = x - of_int f
      in if d < 1 / 2 then f
         else if 1 / 2 < d then f + 1
         else if even f then f else f + 1)"

definition format_2f :: "rat \<Rightarrow> string" where
  "format_2f x =
     (let h = nat (round_half_even (\<bar>x\<bar> * 100))
      in (if x < 0 then ''-'' else '''')
         @ str_nat (h div 100) @ ''.'' @ [digit (h div 10), digit h])"

subsection \<open>print\_hit\_rate\<close>

datatype error = ZeroDivisionError

text \<open>Python's \<^verbatim>\<open>/\<close>: it raises on a zero divisor.\<close>

definition truediv :: "rat \<Rightarrow> rat \<Rightarrow> error + rat" where
  "truediv a b = (if b = 0 then Inl ZeroDivisionError else Inr (a / b))"

definition bind_err :: "error + 'a \<Rightarrow> ('a \<Rightarrow> error + 'b) \<Rightarrow> error + 'b" where
  "bind_err m f = (case m of Inl e \<Rightarrow> Inl e | Inr x \<Rightarrow> f x)"

text \<open>
  One group of six values of the report line: the three counts as they are printed and
  the three quotients computed from them.
\<close>

record metrics =
  request_count :: int
  hit_count :: int
  miss_count :: int
  hit_rate :: rat
  miss_rate :: rat
  avg_preload_time :: rat

text \<open>
  Lines 52 to 54 compute the two rates and the average of the cycle, lines 56 to 58 the
  same three quotients of the totals; \<open>rates\<close> is that computation, in the order of the
  source, with the count that divides as its first argument.
\<close>

definition rates :: "int \<Rightarrow> int \<Rightarrow> int \<Rightarrow> rat \<Rightarrow> error + metrics" where
  "rates cnt hit miss preload =
     bind_err (truediv (of_int hit) (of_int cnt)) (\<lambda>h.
     bind_err (truediv (of_int miss) (of_int cnt)) (\<lambda>m.
     bind_err (truediv preload (of_int cnt)) (\<lambda>a.
       Inr \<lparr>request_count = cnt, hit_count = hit, miss_count = miss,
            hit_rate = h * 100, miss_rate = m * 100, avg_preload_time = a\<rparr>)))"

text \<open>
  The format string of lines 60 to 70. \<open>now\<close> is the text of
  \<^verbatim>\<open>datetime.now()\<close> and \<open>pid\<close> the value of \<^verbatim>\<open>os.getpid()\<close>: both come
  from the environment and are parameters.
\<close>

definition print_mesg :: "string \<Rightarrow> int \<Rightarrow> string \<Rightarrow> metrics \<Rightarrow> metrics \<Rightarrow> string" where
  "print_mesg now pid cache_dir lc sm =
     ''time:'' @ now @ '' pid:'' @ str_int pid @ '' cube_cache_dir:'' @ cache_dir
     @ '' last_cycle_metrics:([request_count:'' @ str_int (request_count lc)
     @ '' hit_count:'' @ str_int (hit_count lc)
     @ '' miss_count:'' @ str_int (miss_count lc)
     @ '' hit_rate:'' @ format_2f (hit_rate lc)
     @ ''% miss_rate:'' @ format_2f (miss_rate lc)
     @ ''%  avg_preload_time:'' @ format_2f (avg_preload_time lc)
     @ '' s])  sum_metrics:([request_count:'' @ str_int (request_count sm)
     @ '' hit_count:'' @ str_int (hit_count sm)
     @ '' miss_count:'' @ str_int (miss_count sm)
     @ '' hit_rate:'' @ format_2f (hit_rate sm)
     @ ''% miss_rate:'' @ format_2f (miss_rate sm)
     @ ''% avg_preload_time:'' @ format_2f (avg_preload_time sm)
     @ '' s]) ''"

text \<open>
  Lines 43 to 45: the local variable \<^verbatim>\<open>request_count\<close>, the sum of the cycle's
  two counts, or 1 when that sum is 0.
\<close>

definition cycle_request_count :: "interceptor \<Rightarrow> int" where
  "cycle_request_count s =
     (let cnt = last_cycle_hit_count s + last_cycle_miss_count s
      in if cnt = 0 then 1 else cnt)"

text \<open>
  \<open>print_hit_rate\<close> returns what the call does, the printed line or the exception it
  raises, and the attributes it leaves behind. The totals are updated (lines 47 to 50)
  before the first division, so a call that raises leaves them updated and the cycle
  counters as they were; a call that returns has printed the line and reset the cycle
  counters (lines 74 to 76).
\<close>

definition print_hit_rate :: "string \<Rightarrow> int \<Rightarrow> interceptor \<Rightarrow> (error + string) \<times> interceptor" where
  "print_hit_rate now pid s =
     (let cnt = cycle_request_count s;
          s1 = s\<lparr>total_count := total_count s + cnt,
                 total_hit_count := total_hit_count s + last_cycle_hit_count s,
                 total_miss_count := total_miss_count s + last_cycle_miss_count s,
                 total_preload_time := total_preload_time s + last_cycle_preload_time s\<rparr>
      in case bind_err (rates cnt (last_cycle_hit_count s1) (last_cycle_miss_count s1)
                          (last_cycle_preload_time s1)) (\<lambda>lc.
              bind_err (rates (total_count s1) (total_hit_count s1) (total_miss_count s1)
                          (total_preload_time s1)) (\<lambda>sm.
                Inr (print_mesg now pid (cube_cache_dir s1) lc sm)))
         of Inl e \<Rightarrow> (Inl e, s1)
          | Inr line \<Rightarrow>
              (Inr line,
               s1\<lparr>last_cycle_hit_count := 0,
                  last_cycle_miss_count := 0,
                  last_cycle_preload_time := 0\<rparr>))"

subsection \<open>Sequences of calls\<close>

datatype call = Set_params string | Add_count bool rat | Print_hit_rate string int

text \<open>
  The attributes after one call, and after a list of calls. For \<open>Print_hit_rate\<close> these
  are the attributes the call leaves behind, whether it returns or raises.
\<close>

fun step :: "interceptor \<Rightarrow> call \<Rightarrow> interceptor" where
  "step s (Set_params root_dir) = set_params root_dir s"
| "step s (Add_count is_cache preload_time) = add_count is_cache preload_time s"
| "step s (Print_hit_rate now pid) = snd (print_hit_rate now pid s)"

fun run :: "interceptor \<Rightarrow> call list \<Rightarrow> interceptor" where
  "run s [] = s"
| "run s (c # cs) = run (step s c) cs"

subsection \<open>Vocabulary of the properties\<close>

text \<open>
  A reporting cycle is what happens between two calls of \<open>print_hit_rate\<close>: here the
  \<open>add_count\<close> calls of the cycle, as their argument pairs, and the time and process id
  that the closing \<open>print_hit_rate\<close> reads.
\<close>

type_synonym cycle = "(bool \<times> rat) list \<times> string \<times> int"

fun cycle_calls :: "cycle \<Rightarrow> call list" where
  "cycle_calls (rs, now, pid) = map (\<lambda>(is_cache, p). Add_count is_cache p) rs @ [Print_hit_rate now pid]"

definition cycles_calls :: "cycle list \<Rightarrow> call list" where
  "cycles_calls cys = concat (map cycle_calls cys)"

text \<open>The hits and the misses recorded in a cycle.\<close>

definition cycle_hits :: "cycle \<Rightarrow> int" where
  "cycle_hits cy = int (length (filter fst (fst cy)))"

definition cycle_misses :: "cycle \<Rightarrow> int" where
  "cycle_misses cy = int (length (filter (\<lambda>r. \<not> fst r) (fst cy)))"

text \<open>
  \<open>nonempty_flushes b cs\<close>: in the call list \<open>cs\<close> every \<open>print_hit_rate\<close> closes a
  cycle in which \<open>add_count\<close> was called at least once; \<open>b\<close> says whether the cycle that
  is open when \<open>cs\<close> starts has seen a call already.
\<close>

fun nonempty_flushes :: "bool \<Rightarrow> call list \<Rightarrow> bool" where
  "nonempty_flushes b [] = True"
| "nonempty_flushes b (Set_params root_dir # cs) = nonempty_flushes b cs"
| "nonempty_flushes b (Add_count is_cache p # cs) = nonempty_flushes True cs"
| "nonempty_flushes b (Print_hit_rate now pid # cs) = (b \<and> nonempty_flushes False cs)"

fun is_print :: "call \<Rightarrow> bool" where
  "is_print (Print_hit_rate now pid) = True"
| "is_print c = False"

fun nonneg_preload :: "call \<Rightarrow> bool" where
  "nonneg_preload (Add_count is_cache p) = (0 \<le> p)"
| "nonneg_preload c = True"

text \<open>The two cycles of the scenario of the specification.\<close>

definition scenario_cycle1 :: "call list" where
  "scenario_cycle1 =
     [Set_params ''cache-A'', Add_count True (1 / 2), Add_count True (3 / 2), Add_count False 0]"

definition scenario_cycle2 :: "call list" where
  "scenario_cycle2 = [Add_count True 1]"

text \<open>
  What holds of the counters in every state the three methods reach from \<open>initial\<close>:
  no counter that divides or is added to a total is negative, and a cycle with no hit
  has no preload time.
\<close>

definition counters_ok :: "interceptor \<Rightarrow> bool" where
  "counters_ok s \<longleftrightarrow>
     0 \<le> last_cycle_hit_count s \<and> 0 \<le> last_cycle_miss_count s \<and> 0 \<le> total_count s
     \<and> (last_cycle_hit_count s = 0 \<longrightarrow> last_cycle_preload_time s = 0)"

text \<open>
  The state in which a cycle starts: both cycle counts are 0, as in the initial state
  and after a \<open>print_hit_rate\<close> that returned.
\<close>

definition cycle_start :: "interceptor \<Rightarrow> bool" where
  "cycle_start s \<longleftrightarrow>
     last_cycle_hit_count s = 0 \<and> last_cycle_miss_count s = 0 \<and> 0 \<le> total_count s"

section \<open>Basic facts\<close>

text \<open>
  What \<open>print_hit_rate\<close> computes, in closed form: it returns exactly when the total
  count after the update of line 47 is not zero, and raises otherwise. Either way the
  four totals have been updated.
\<close>

lemma rates_ok: "cnt \<noteq> 0 \<Longrightarrow> rates cnt hit miss preload =
   Inr \<lparr>request_count = cnt, hit_count = hit, miss_count = miss,
        hit_rate = of_int hit / of_int cnt * 100, miss_rate = of_int miss / of_int cnt * 100,
        avg_preload_time = preload / of_int cnt\<rparr>"
  by (simp add: rates_def bind_err_def truediv_def)

lemma rates_zero: "rates 0 hit miss preload = Inl ZeroDivisionError"
  by (simp add: rates_def bind_err_def truediv_def)

lemma cycle_request_count_nonzero: "cycle_request_count s \<noteq> 0"
  by (simp add: cycle_request_count_def Let_def)

lemma cycle_request_count_empty:
  "last_cycle_hit_count s + last_cycle_miss_count s = 0 \<Longrightarrow> cycle_request_count s = 1"
  by (simp add: cycle_request_count_def)

lemma cycle_request_count_nonempty:
  "last_cycle_hit_count s + last_cycle_miss_count s \<noteq> 0 \<Longrightarrow>
   cycle_request_count s = last_cycle_hit_count s + last_cycle_miss_count s"
  by (simp add: cycle_request_count_def)

lemma cycle_request_count_positive:
  "0 \<le> last_cycle_hit_count s \<Longrightarrow> 0 \<le> last_cycle_miss_count s \<Longrightarrow> 1 \<le> cycle_request_count s"
  by (simp add: cycle_request_count_def Let_def)

lemma print_hit_rate_returns:
  assumes "total_count s + cycle_request_count s \<noteq> 0"
  shows "print_hit_rate now pid s =
    (Inr (print_mesg now pid (cube_cache_dir s)
       \<lparr>request_count = cycle_request_count s,
        hit_count = last_cycle_hit_count s,
        miss_count = last_cycle_miss_count s,
        hit_rate = of_int (last_cycle_hit_count s) / of_int (cycle_request_count s) * 100,
        miss_rate = of_int (last_cycle_miss_count s) / of_int (cycle_request_count s) * 100,
        avg_preload_time = last_cycle_preload_time s / of_int (cycle_request_count s)\<rparr>
       \<lparr>request_count = total_count s + cycle_request_count s,
        hit_count = total_hit_count s + last_cycle_hit_count s,
        miss_count = total_miss_count s + last_cycle_miss_count s,
        hit_rate = of_int (total_hit_count s + last_cycle_hit_count s)
                   / of_int (total_count s + cycle_request_count s) * 100,
        miss_rate = of_int (total_miss_count s + last_cycle_miss_count s)
                    / of_int (total_count s + cycle_request_count s) * 100,
        avg_preload_time = (total_preload_time s + last_cycle_preload_time s)
                           / of_int (total_count s + cycle_request_count s)\<rparr>),
     s\<lparr>total_count := total_count s + cycle_request_count s,
       total_hit_count := total_hit_count s + last_cycle_hit_count s,
       total_miss_count := total_miss_count s + last_cycle_miss_count s,
       total_preload_time := total_preload_time s + last_cycle_preload_time s,
       last_cycle_hit_count := 0,
       last_cycle_miss_count := 0,
       last_cycle_preload_time := 0\<rparr>)"
  using assms cycle_request_count_nonzero [of s]
  by (simp add: print_hit_rate_def Let_def rates_ok bind_err_def)

lemma print_hit_rate_raises:
  assumes "total_count s + cycle_request_count s = 0"
  shows "print_hit_rate now pid s =
    (Inl ZeroDivisionError,
     s\<lparr>total_count := total_count s + cycle_request_count s,
       total_hit_count := total_hit_count s + last_cycle_hit_count s,
       total_miss_count := total_miss_count s + last_cycle_miss_count s,
       total_preload_time := total_preload_time s + last_cycle_preload_time s\<rparr>)"
  using assms cycle_request_count_nonzero [of s]
  by (simp add: print_hit_rate_def Let_def rates_ok rates_zero bind_err_def)

lemma print_hit_rate_totals:
  "total_count (snd (print_hit_rate now pid s)) = total_count s + cycle_request_count s"
  "total_hit_count (snd (print_hit_rate now pid s)) = total_hit_count s + last_cycle_hit_count s"
  "total_miss_count (snd (print_hit_rate now pid s)) = total_miss_count s + last_cycle_miss_count s"
  "total_preload_time (snd (print_hit_rate now pid s)) =
     total_preload_time s + last_cycle_preload_time s"
  by (cases "total_count s + cycle_request_count s = 0";
      simp add: print_hit_rate_returns print_hit_rate_raises)+

lemma print_hit_rate_dirs:
  "cube_root_dir (snd (print_hit_rate now pid s)) = cube_root_dir s"
  "cube_cache_dir (snd (print_hit_rate now pid s)) = cube_cache_dir s"
  by (cases "total_count s + cycle_request_count s = 0";
      simp add: print_hit_rate_returns print_hit_rate_raises)+

text \<open>
  \<open>counters_ok\<close> holds initially and every call keeps it, so it holds after every list
  of calls; where it holds, the divisor of the totals is not zero.
\<close>

lemma counters_ok_initial: "counters_ok initial"
  by (simp add: counters_ok_def initial_def)

lemma counters_ok_divisor: "counters_ok s \<Longrightarrow> total_count s + cycle_request_count s \<noteq> 0"
  using cycle_request_count_positive [of s] by (simp add: counters_ok_def)

lemma counters_ok_step: "counters_ok s \<Longrightarrow> counters_ok (step s c)"
proof (cases c)
  case (Set_params d)
  assume "counters_ok s"
  then show ?thesis using Set_params by (simp add: counters_ok_def set_params_def)
next
  case (Add_count b p)
  assume "counters_ok s"
  then show ?thesis using Add_count by (simp add: counters_ok_def add_count_def)
next
  case (Print_hit_rate now pid)
  assume ok: "counters_ok s"
  then have nz: "total_count s + cycle_request_count s \<noteq> 0"
    by (rule counters_ok_divisor)
  have "1 \<le> cycle_request_count s"
    using ok by (simp add: counters_ok_def cycle_request_count_positive)
  then show ?thesis
    using ok Print_hit_rate by (simp add: print_hit_rate_returns [OF nz] counters_ok_def)
qed

lemma counters_ok_run: "counters_ok s \<Longrightarrow> counters_ok (run s cs)"
  by (induction cs arbitrary: s) (simp_all add: counters_ok_step)

lemma counters_ok_reachable: "counters_ok (run initial cs)"
  by (rule counters_ok_run [OF counters_ok_initial])

lemma run_append: "run s (as @ bs) = run (run s as) bs"
  by (induction as arbitrary: s) simp_all

text \<open>
  \<open>set_params\<close> writes \<open>cube_root_dir\<close> and nothing else; no method writes
  \<open>cube_cache_dir\<close>, and \<open>print_hit_rate\<close> does not read \<open>cube_root_dir\<close>.
\<close>

lemma run_set_params:
  "labels \<noteq> [] \<Longrightarrow> run s (map Set_params labels) = s\<lparr>cube_root_dir := last labels\<rparr>"
proof (induction labels arbitrary: s)
  case Nil
  then show ?case by simp
next
  case (Cons l ls)
  show ?case
  proof (cases "ls = []")
    case True
    then show ?thesis by (simp add: set_params_def)
  next
    case False
    then show ?thesis using Cons.IH [of "set_params l s"] by (simp add: set_params_def)
  qed
qed

lemma cube_cache_dir_step: "cube_cache_dir (step s c) = cube_cache_dir s"
  by (cases c) (simp_all add: set_params_def add_count_def print_hit_rate_dirs)

lemma cube_cache_dir_run: "cube_cache_dir (run s cs) = cube_cache_dir s"
  by (induction cs arbitrary: s) (simp_all add: cube_cache_dir_step)

lemma print_hit_rate_root_dir:
  "fst (print_hit_rate now pid (s\<lparr>cube_root_dir := d\<rparr>)) = fst (print_hit_rate now pid s)"
  by (simp add: print_hit_rate_def Let_def cycle_request_count_def split: sum.splits)

text \<open>
  The totals along a list of calls: only \<open>print_hit_rate\<close> writes them, the three
  counts never go down where \<open>counters_ok\<close> holds, and the total preload time does not
  go down as long as no negative preload time is recorded.
\<close>

lemma step_totals_unchanged:
  assumes "\<not> is_print c"
  shows "total_count (step s c) = total_count s"
    and "total_hit_count (step s c) = total_hit_count s"
    and "total_miss_count (step s c) = total_miss_count s"
    and "total_preload_time (step s c) = total_preload_time s"
  using assms by (cases c, simp_all add: set_params_def add_count_def)+

lemma run_totals_unchanged:
  assumes "list_all (\<lambda>c. \<not> is_print c) cs"
  shows "total_count (run s cs) = total_count s
    \<and> total_hit_count (run s cs) = total_hit_count s
    \<and> total_miss_count (run s cs) = total_miss_count s
    \<and> total_preload_time (run s cs) = total_preload_time s"
  using assms by (induction cs arbitrary: s) (simp_all add: step_totals_unchanged)

lemma step_counts_mono:
  assumes "counters_ok s"
  shows "total_count s \<le> total_count (step s c)"
    and "total_hit_count s \<le> total_hit_count (step s c)"
    and "total_miss_count s \<le> total_miss_count (step s c)"
proof -
  have pos: "1 \<le> cycle_request_count s"
    using assms by (simp add: counters_ok_def cycle_request_count_positive)
  show "total_count s \<le> total_count (step s c)"
    using pos by (cases c) (simp_all add: set_params_def add_count_def print_hit_rate_totals)
  show "total_hit_count s \<le> total_hit_count (step s c)"
    using assms
    by (cases c) (simp_all add: set_params_def add_count_def print_hit_rate_totals counters_ok_def)
  show "total_miss_count s \<le> total_miss_count (step s c)"
    using assms
    by (cases c) (simp_all add: set_params_def add_count_def print_hit_rate_totals counters_ok_def)
qed

lemma run_counts_mono:
  assumes "counters_ok s"
  shows "total_count s \<le> total_count (run s cs)
    \<and> total_hit_count s \<le> total_hit_count (run s cs)
    \<and> total_miss_count s \<le> total_miss_count (run s cs)"
  using assms
proof (induction cs arbitrary: s)
  case Nil
  show ?case by simp
next
  case (Cons c cs)
  have "counters_ok (step s c)"
    using Cons.prems by (rule counters_ok_step)
  from Cons.IH [OF this] step_counts_mono [OF Cons.prems, of c]
  show ?case by simp
qed

lemma step_cycle_preload_nonneg:
  assumes "counters_ok s" and "0 \<le> last_cycle_preload_time s" and "nonneg_preload c"
  shows "0 \<le> last_cycle_preload_time (step s c)"
proof (cases c)
  case (Set_params d)
  then show ?thesis using assms by (simp add: set_params_def)
next
  case (Add_count b p)
  then show ?thesis using assms by (simp add: add_count_def)
next
  case (Print_hit_rate now pid)
  have "total_count s + cycle_request_count s \<noteq> 0"
    using assms(1) by (rule counters_ok_divisor)
  then show ?thesis using Print_hit_rate by (simp add: print_hit_rate_returns)
qed

lemma run_cycle_preload_nonneg:
  assumes "counters_ok s" and "0 \<le> last_cycle_preload_time s" and "list_all nonneg_preload cs"
  shows "0 \<le> last_cycle_preload_time (run s cs)"
  using assms
proof (induction cs arbitrary: s)
  case Nil
  then show ?case by simp
next
  case (Cons c cs)
  have "counters_ok (step s c)"
    using Cons.prems(1) by (rule counters_ok_step)
  moreover have "0 \<le> last_cycle_preload_time (step s c)"
    using Cons.prems by (simp add: step_cycle_preload_nonneg)
  ultimately show ?case
    using Cons.IH [of "step s c"] Cons.prems(3) by simp
qed

lemma step_preload_mono:
  assumes "0 \<le> last_cycle_preload_time s"
  shows "total_preload_time s \<le> total_preload_time (step s c)"
  using assms by (cases c) (simp_all add: set_params_def add_count_def print_hit_rate_totals)

lemma run_preload_mono:
  assumes "counters_ok s" and "0 \<le> last_cycle_preload_time s" and "list_all nonneg_preload cs"
  shows "total_preload_time s \<le> total_preload_time (run s cs)"
  using assms
proof (induction cs arbitrary: s)
  case Nil
  then show ?case by simp
next
  case (Cons c cs)
  have ok: "counters_ok (step s c)"
    using Cons.prems(1) by (rule counters_ok_step)
  have nn: "0 \<le> last_cycle_preload_time (step s c)"
    using Cons.prems by (simp add: step_cycle_preload_nonneg)
  have "total_preload_time s \<le> total_preload_time (step s c)"
    using Cons.prems(2) by (rule step_preload_mono)
  also have "\<dots> \<le> total_preload_time (run (step s c) cs)"
    using Cons.IH [OF ok nn] Cons.prems(3) by simp
  finally show ?case by simp
qed

text \<open>
  The balance of the three total counts is kept by every call list in which each
  \<open>print_hit_rate\<close> closes a cycle with at least one \<open>add_count\<close>.
\<close>

lemma print_hit_rate_cycle_nonneg:
  "0 \<le> last_cycle_hit_count s \<Longrightarrow> 0 \<le> last_cycle_hit_count (snd (print_hit_rate now pid s))"
  "0 \<le> last_cycle_miss_count s \<Longrightarrow> 0 \<le> last_cycle_miss_count (snd (print_hit_rate now pid s))"
  by (cases "total_count s + cycle_request_count s = 0",
      simp_all add: print_hit_rate_returns print_hit_rate_raises)+

lemma totals_balanced_run:
  assumes "nonempty_flushes b cs"
    and "0 \<le> last_cycle_hit_count s" and "0 \<le> last_cycle_miss_count s"
    and "b \<longrightarrow> last_cycle_hit_count s + last_cycle_miss_count s \<noteq> 0"
    and "total_count s = total_hit_count s + total_miss_count s"
  shows "total_count (run s cs) = total_hit_count (run s cs) + total_miss_count (run s cs)"
  using assms
proof (induction cs arbitrary: s b)
  case Nil
  then show ?case by simp
next
  case (Cons c cs)
  show ?case
  proof (cases c)
    case (Set_params d)
    with Cons.prems have "nonempty_flushes b cs" by simp
    from Cons.IH [OF this, of "set_params d s"] Cons.prems Set_params
    show ?thesis by (simp add: set_params_def)
  next
    case (Add_count h p)
    with Cons.prems have "nonempty_flushes True cs" by simp
    from Cons.IH [OF this, of "add_count h p s"] Cons.prems Add_count
    show ?thesis by (simp add: add_count_def)
  next
    case (Print_hit_rate now pid)
    with Cons.prems have b: "b" and rest: "nonempty_flushes False cs" by simp_all
    let ?s' = "snd (print_hit_rate now pid s)"
    from b Cons.prems(4) have ne: "last_cycle_hit_count s + last_cycle_miss_count s \<noteq> 0"
      by simp
    then have cnt: "cycle_request_count s = last_cycle_hit_count s + last_cycle_miss_count s"
      by (rule cycle_request_count_nonempty)
    have "total_count (run ?s' cs) = total_hit_count (run ?s' cs) + total_miss_count (run ?s' cs)"
    proof (rule Cons.IH [OF rest])
      show "0 \<le> last_cycle_hit_count ?s'"
        using Cons.prems(2) by (rule print_hit_rate_cycle_nonneg)
      show "0 \<le> last_cycle_miss_count ?s'"
        using Cons.prems(3) by (rule print_hit_rate_cycle_nonneg)
      show "False \<longrightarrow> last_cycle_hit_count ?s' + last_cycle_miss_count ?s' \<noteq> 0" by simp
      show "total_count ?s' = total_hit_count ?s' + total_miss_count ?s'"
        using Cons.prems(5) cnt by (simp add: print_hit_rate_totals)
    qed
    with Print_hit_rate show ?thesis by simp
  qed
qed

text \<open>
  A run cycle by cycle: the \<open>add_count\<close> calls of a cycle count its hits and misses,
  and the \<open>print_hit_rate\<close> that closes it adds them to the totals.
\<close>

lemma run_add_counts:
  "last_cycle_hit_count (run s (map (\<lambda>(is_cache, p). Add_count is_cache p) rs))
     = last_cycle_hit_count s + int (length (filter fst rs))"
  "last_cycle_miss_count (run s (map (\<lambda>(is_cache, p). Add_count is_cache p) rs))
     = last_cycle_miss_count s + int (length (filter (\<lambda>r. \<not> fst r) rs))"
  "total_count (run s (map (\<lambda>(is_cache, p). Add_count is_cache p) rs)) = total_count s"
  "total_hit_count (run s (map (\<lambda>(is_cache, p). Add_count is_cache p) rs)) = total_hit_count s"
  "total_miss_count (run s (map (\<lambda>(is_cache, p). Add_count is_cache p) rs)) = total_miss_count s"
  by (induction rs arbitrary: s, simp_all add: add_count_def split_beta)+

lemma hits_plus_misses: "cycle_hits cy + cycle_misses cy = int (length (fst cy))"
  unfolding cycle_hits_def cycle_misses_def
  using sum_length_filter_compl [of fst "fst cy"] by simp

lemma cycle_request_count_max:
  "0 \<le> last_cycle_hit_count s \<Longrightarrow> 0 \<le> last_cycle_miss_count s \<Longrightarrow>
   cycle_request_count s = max (last_cycle_hit_count s + last_cycle_miss_count s) 1"
  by (simp add: cycle_request_count_def Let_def)

lemma run_cycle:
  assumes "cycle_start s"
  shows "cycle_start (run s (cycle_calls cy))"
    and "total_hit_count (run s (cycle_calls cy)) = total_hit_count s + cycle_hits cy"
    and "total_miss_count (run s (cycle_calls cy)) = total_miss_count s + cycle_misses cy"
    and "total_count (run s (cycle_calls cy))
         = total_count s + max (cycle_hits cy + cycle_misses cy) 1"
proof -
  obtain rs now pid where cy: "cy = (rs, now, pid)"
    by (cases cy) auto
  let ?s1 = "run s (map (\<lambda>(is_cache, p). Add_count is_cache p) rs)"
  have run: "run s (cycle_calls cy) = snd (print_hit_rate now pid ?s1)"
    by (simp add: cy run_append)
  have h: "last_cycle_hit_count ?s1 = cycle_hits cy"
    and m: "last_cycle_miss_count ?s1 = cycle_misses cy"
    using assms by (simp_all add: run_add_counts cycle_start_def cycle_hits_def cycle_misses_def cy)
  have hm: "0 \<le> cycle_hits cy" "0 \<le> cycle_misses cy"
    by (simp_all add: cycle_hits_def cycle_misses_def)
  have cnt: "cycle_request_count ?s1 = max (cycle_hits cy + cycle_misses cy) 1"
    using hm by (simp add: cycle_request_count_max h m)
  have tc: "total_count ?s1 = total_count s"
    by (simp add: run_add_counts(3))
  have nz: "total_count ?s1 + cycle_request_count ?s1 \<noteq> 0"
    using assms hm unfolding tc cnt cycle_start_def by linarith
  show "cycle_start (run s (cycle_calls cy))"
    using assms by (simp add: run print_hit_rate_returns [OF nz] cycle_start_def tc cnt)
  show "total_hit_count (run s (cycle_calls cy)) = total_hit_count s + cycle_hits cy"
    by (simp add: run print_hit_rate_totals h run_add_counts(4))
  show "total_miss_count (run s (cycle_calls cy)) = total_miss_count s + cycle_misses cy"
    by (simp add: run print_hit_rate_totals m run_add_counts(5))
  show "total_count (run s (cycle_calls cy))
         = total_count s + max (cycle_hits cy + cycle_misses cy) 1"
    by (simp add: run print_hit_rate_totals cnt tc)
qed

lemma run_cycles:
  assumes "cycle_start s"
  shows "cycle_start (run s (cycles_calls cys))
    \<and> total_hit_count (run s (cycles_calls cys)) = total_hit_count s + sum_list (map cycle_hits cys)
    \<and> total_miss_count (run s (cycles_calls cys))
        = total_miss_count s + sum_list (map cycle_misses cys)
    \<and> total_count (run s (cycles_calls cys))
        = total_count s + sum_list (map (\<lambda>cy. max (cycle_hits cy + cycle_misses cy) 1) cys)"
  using assms
proof (induction cys arbitrary: s)
  case Nil
  then show ?case by (simp add: cycles_calls_def)
next
  case (Cons cy cys)
  have split: "run s (cycles_calls (cy # cys)) = run (run s (cycle_calls cy)) (cycles_calls cys)"
    by (simp add: cycles_calls_def run_append)
  from Cons.IH [OF run_cycle(1) [OF Cons.prems, of cy]] run_cycle(2-4) [OF Cons.prems, of cy]
  show ?case unfolding split by simp
qed

lemma cycle_start_initial: "cycle_start initial"
  by (simp add: cycle_start_def initial_def)

lemma sum_requests_bounds:
  "int (length cys) \<le> sum_list (map (\<lambda>cy. max (cycle_hits cy + cycle_misses cy) 1) cys)"
  "sum_list (map cycle_hits cys) + sum_list (map cycle_misses cys)
     \<le> sum_list (map (\<lambda>cy. max (cycle_hits cy + cycle_misses cy) 1) cys)"
  by (induction cys, simp_all)+

lemma sum_requests_exact:
  "sum_list (map (\<lambda>cy. max (cycle_hits cy + cycle_misses cy) 1) cys)
     = sum_list (map cycle_hits cys) + sum_list (map cycle_misses cys)
   \<longleftrightarrow> (\<forall>cy \<in> set cys. fst cy \<noteq> [])"
proof (induction cys)
  case Nil
  show ?case by simp
next
  case (Cons cy cys)
  have "max (cycle_hits cy + cycle_misses cy) 1 = cycle_hits cy + cycle_misses cy \<longleftrightarrow> fst cy \<noteq> []"
    by (cases "fst cy") (simp_all add: hits_plus_misses)
  moreover have "cycle_hits cy + cycle_misses cy \<le> max (cycle_hits cy + cycle_misses cy) 1"
    by simp
  moreover note sum_requests_bounds(2) [of cys]
  ultimately show ?case
    using Cons.IH by (simp del: max.absorb1 max.absorb2 max.absorb3 max.absorb4) linarith
qed

text \<open>
  Rendering with two decimals: a value whose hundredfold is less than a half away from
  \<open>h\<close> is printed as \<open>h\<close> hundredths.
\<close>

lemma round_half_even_nearest:
  assumes "of_int n - 1 / 2 < x" and "x < of_int n + 1 / 2"
  shows "round_half_even x = n"
proof -
  have "n - 1 \<le> \<lfloor>x\<rfloor>"
    using assms(1) by (simp add: le_floor_iff)
  moreover have "\<lfloor>x\<rfloor> < n + 1"
  proof -
    have "x < of_int (n + 1)"
      using assms(2) by simp
    then show ?thesis
      by (simp only: floor_less_iff)
  qed
  ultimately consider "\<lfloor>x\<rfloor> = n - 1" | "\<lfloor>x\<rfloor> = n"
    by linarith
  then show ?thesis
  proof cases
    case 1
    then show ?thesis using assms by (simp add: round_half_even_def Let_def)
  next
    case 2
    then show ?thesis using assms by (simp add: round_half_even_def Let_def)
  qed
qed

lemma format_2f_nearest:
  assumes "0 \<le> x" and "of_nat h - 1 / 2 < x * 100" and "x * 100 < of_nat h + 1 / 2"
  shows "format_2f x = str_nat (h div 100) @ ''.'' @ [digit (h div 10), digit h]"
proof -
  have "round_half_even (\<bar>x\<bar> * 100) = int h"
    using assms by (intro round_half_even_nearest) simp_all
  then show ?thesis
    using assms(1) by (simp add: format_2f_def)
qed

lemma format_2f_values:
  "format_2f 0 = ''0.00''"
  "format_2f 1 = ''1.00''"
  "format_2f 25 = ''25.00''"
  "format_2f 75 = ''75.00''"
  "format_2f 100 = ''100.00''"
  "format_2f (2 / 3) = ''0.67''"
  "format_2f (3 / 4) = ''0.75''"
  "format_2f (100 / 3) = ''33.33''"
  "format_2f (200 / 3) = ''66.67''"
  by (simp_all add: format_2f_nearest [of _ 0] format_2f_nearest [of _ 100]
      format_2f_nearest [of _ 2500] format_2f_nearest [of _ 7500]
      format_2f_nearest [of _ 10000] format_2f_nearest [of _ 67]
      format_2f_nearest [of _ 75] format_2f_nearest [of _ 3333]
      format_2f_nearest [of _ 6667] str_nat.simps digit_def)

section \<open>add\_count\<close>


section \<open>print\_hit\_rate\<close>

text \<open>
  Claim C7. After any list of calls from the initial state, hence after any calls of
  \<open>add_count\<close> in the open cycle, \<open>print_hit_rate\<close> returns, and in the state it
  returns in, the cycle's hit count, miss count and preload time are all 0: the three
  are reset by the same call.
\<close>

theorem print_hit_rate_resets_cycle:
  "\<exists>line s'. print_hit_rate now pid (run initial cs) = (Inr line, s')
      \<and> last_cycle_hit_count s' = 0 \<and> last_cycle_miss_count s' = 0
      \<and> last_cycle_preload_time s' = 0"
proof -
  have "total_count (run initial cs) + cycle_request_count (run initial cs) \<noteq> 0"
    by (rule counters_ok_divisor [OF counters_ok_reachable])
  then show ?thesis
    by (simp add: print_hit_rate_returns)
qed



text \<open>
  Claim C3, as amended. When a call of \<open>print_hit_rate\<close> has returned, an immediate second
  call leaves the total hit count, the total miss count and the total preload time as
  they are, and adds exactly 1 to the total request count: the cycle is empty, and the
  request count of an empty cycle is taken as 1 before it is added (lines 44 to 47).
\<close>

theorem print_hit_rate_twice:
  assumes "fst (print_hit_rate now pid s) = Inr line"
    and "s1 = snd (print_hit_rate now pid s)"
    and "s2 = snd (print_hit_rate now' pid' s1)"
  shows "total_hit_count s2 = total_hit_count s1
    \<and> total_miss_count s2 = total_miss_count s1
    \<and> total_preload_time s2 = total_preload_time s1
    \<and> total_count s2 = total_count s1 + 1"
proof -
  have nz: "total_count s + cycle_request_count s \<noteq> 0"
  proof
    assume "total_count s + cycle_request_count s = 0"
    then have "fst (print_hit_rate now pid s) = Inl ZeroDivisionError"
      by (simp add: print_hit_rate_raises)
    with assms(1) show False by simp
  qed
  have zero: "last_cycle_hit_count s1 = 0 \<and> last_cycle_miss_count s1 = 0
      \<and> last_cycle_preload_time s1 = 0"
    unfolding assms(2) by (simp add: print_hit_rate_returns [OF nz])
  then have "cycle_request_count s1 = 1"
    by (simp add: cycle_request_count_empty)
  with zero show ?thesis
    unfolding assms(3) by (simp add: print_hit_rate_totals)
qed

theorem print_hit_rate_twice_witness:
  "fst (print_hit_rate ''2024-01-01 12:00:00.250000'' 4711 initial) =
     Inr (print_mesg ''2024-01-01 12:00:00.250000'' 4711 ''user memory''
           \<lparr>request_count = 1, hit_count = 0, miss_count = 0,
            hit_rate = 0, miss_rate = 0, avg_preload_time = 0\<rparr>
           \<lparr>request_count = 1, hit_count = 0, miss_count = 0,
            hit_rate = 0, miss_rate = 0, avg_preload_time = 0\<rparr>)
   \<and> total_hit_count (snd (print_hit_rate ''2024-01-01 12:00:10.250000'' 4711 (snd (print_hit_rate ''2024-01-01 12:00:00.250000'' 4711 initial)))) = 0
   \<and> total_miss_count (snd (print_hit_rate ''2024-01-01 12:00:10.250000'' 4711 (snd (print_hit_rate ''2024-01-01 12:00:00.250000'' 4711 initial)))) = 0
   \<and> total_preload_time (snd (print_hit_rate ''2024-01-01 12:00:10.250000'' 4711 (snd (print_hit_rate ''2024-01-01 12:00:00.250000'' 4711 initial)))) = 0
   \<and> total_count (snd (print_hit_rate ''2024-01-01 12:00:10.250000'' 4711 (snd (print_hit_rate ''2024-01-01 12:00:00.250000'' 4711 initial)))) = 2"
proof -
  have nz: "total_count initial + cycle_request_count initial \<noteq> 0"
    by (simp add: initial_def cycle_request_count_def)
  have ret: "fst (print_hit_rate ''2024-01-01 12:00:00.250000'' 4711 initial) =
     Inr (print_mesg ''2024-01-01 12:00:00.250000'' 4711 ''user memory''
           \<lparr>request_count = 1, hit_count = 0, miss_count = 0,
            hit_rate = 0, miss_rate = 0, avg_preload_time = 0\<rparr>
           \<lparr>request_count = 1, hit_count = 0, miss_count = 0,
            hit_rate = 0, miss_rate = 0, avg_preload_time = 0\<rparr>)"
    by (simp add: print_hit_rate_returns [OF nz]) (simp add: initial_def cycle_request_count_def)
  have tot: "total_hit_count (snd (print_hit_rate ''2024-01-01 12:00:00.250000'' 4711 initial)) = 0
    \<and> total_miss_count (snd (print_hit_rate ''2024-01-01 12:00:00.250000'' 4711 initial)) = 0
    \<and> total_preload_time (snd (print_hit_rate ''2024-01-01 12:00:00.250000'' 4711 initial)) = 0
    \<and> total_count (snd (print_hit_rate ''2024-01-01 12:00:00.250000'' 4711 initial)) = 1"
    by (simp add: print_hit_rate_totals) (simp add: initial_def cycle_request_count_def)
  show ?thesis
    using print_hit_rate_twice [OF ret refl refl, of "''2024-01-01 12:00:10.250000''" 4711] ret tot by simp
qed

text \<open>
  As stated, for all four totals, the claim fails on the first two calls from the initial
  state: the second call changes the total request count from 1 to 2.
\<close>

theorem print_hit_rate_twice_counterexample:
  "total_count (run initial [Print_hit_rate ''2024-01-01 12:00:00.250000'' 4711, Print_hit_rate ''2024-01-01 12:00:10.250000'' 4711])
   \<noteq> total_count (run initial [Print_hit_rate ''2024-01-01 12:00:00.250000'' 4711])"
  by (simp add: print_hit_rate_def Let_def cycle_request_count_def initial_def rates_def
      bind_err_def truediv_def)

section \<open>set\_params\<close>

text \<open>
  Claim C4, as amended. After any non-empty list of \<open>set_params\<close> calls, made in a
  state \<open>s\<close> reached from the initial state, \<open>cube_root_dir\<close> is the argument of the
  last call and every other attribute is as in \<open>s\<close>. The label that the next
  \<open>print_hit_rate\<close> prints is \<open>cube_cache_dir\<close>, which is still
  \<^verbatim>\<open>user memory\<close>: the line is the one that would have been printed without the
  \<open>set_params\<close> calls.
\<close>

theorem set_params_last_wins:
  assumes "labels \<noteq> []"
    and "s = run initial cs"
    and "s' = run s (map Set_params labels)"
  shows "s' = s\<lparr>cube_root_dir := last labels\<rparr>
    \<and> cube_cache_dir s' = ''user memory''
    \<and> fst (print_hit_rate now pid s') = fst (print_hit_rate now pid s)
    \<and> (\<exists>lc sm. fst (print_hit_rate now pid s') = Inr (print_mesg now pid ''user memory'' lc sm))"
proof -
  have eq: "s' = s\<lparr>cube_root_dir := last labels\<rparr>"
    unfolding assms(3) using assms(1) by (rule run_set_params)
  have dir: "cube_cache_dir s = ''user memory''"
    unfolding assms(2) by (simp add: cube_cache_dir_run initial_def)
  have nz: "total_count s + cycle_request_count s \<noteq> 0"
    unfolding assms(2) by (rule counters_ok_divisor [OF counters_ok_reachable])
  have same: "fst (print_hit_rate now pid s') = fst (print_hit_rate now pid s)"
    unfolding eq by (rule print_hit_rate_root_dir)
  have "\<exists>lc sm. fst (print_hit_rate now pid s) = Inr (print_mesg now pid ''user memory'' lc sm)"
    unfolding print_hit_rate_returns [OF nz] dir fst_conv by (intro exI) (rule refl)
  with eq dir same show ?thesis by simp
qed

theorem set_params_last_wins_witness:
  "[''cache-A'', ''cache-B''] \<noteq> []
   \<and> run initial (map Set_params [''cache-A'', ''cache-B'']) = initial\<lparr>cube_root_dir := ''cache-B''\<rparr>
   \<and> cube_cache_dir (run initial (map Set_params [''cache-A'', ''cache-B''])) = ''user memory''"
  using set_params_last_wins [of "[''cache-A'', ''cache-B'']" initial "[]"
      "run initial (map Set_params [''cache-A'', ''cache-B''])" "''2024-01-01 12:00:00.250000''" 4711]
  by (simp add: set_params_def)

text \<open>
  As stated, with the configured label in the printed line, the claim fails after
  \<^verbatim>\<open>set_params("cache-A")\<close> from the initial state: the line shows
  \<^verbatim>\<open>cube_cache_dir:user memory\<close>.
\<close>

theorem set_params_label_counterexample:
  "fst (print_hit_rate ''2024-01-01 12:00:00.250000'' 4711 (run initial [Set_params ''cache-A''])) =
     Inr ''time:2024-01-01 12:00:00.250000 pid:4711 cube_cache_dir:user memory last_cycle_metrics:([request_count:1 hit_count:0 miss_count:0 hit_rate:0.00% miss_rate:0.00%  avg_preload_time:0.00 s])  sum_metrics:([request_count:1 hit_count:0 miss_count:0 hit_rate:0.00% miss_rate:0.00% avg_preload_time:0.00 s]) ''
   \<and> fst (print_hit_rate ''2024-01-01 12:00:00.250000'' 4711 (run initial [Set_params ''cache-A''])) \<noteq>
     Inr (print_mesg ''2024-01-01 12:00:00.250000'' 4711 ''cache-A''
           \<lparr>request_count = 1, hit_count = 0, miss_count = 0,
            hit_rate = 0, miss_rate = 0, avg_preload_time = 0\<rparr>
           \<lparr>request_count = 1, hit_count = 0, miss_count = 0,
            hit_rate = 0, miss_rate = 0, avg_preload_time = 0\<rparr>)"
proof -
  have "fst (print_hit_rate ''2024-01-01 12:00:00.250000'' 4711 (run initial [Set_params ''cache-A''])) =
     Inr (print_mesg ''2024-01-01 12:00:00.250000'' 4711 ''user memory''
           \<lparr>request_count = 1, hit_count = 0, miss_count = 0,
            hit_rate = 0, miss_rate = 0, avg_preload_time = 0\<rparr>
           \<lparr>request_count = 1, hit_count = 0, miss_count = 0,
            hit_rate = 0, miss_rate = 0, avg_preload_time = 0\<rparr>)"
    by (simp add: set_params_def initial_def print_hit_rate_def cycle_request_count_def
        Let_def rates_def bind_err_def truediv_def)
  then show ?thesis
    by (simp add: print_mesg_def str_int_def str_nat.simps digit_def format_2f_values)
qed

section \<open>The totals over a whole execution\<close>

text \<open>
  Claim C5, as amended. Take any list of calls \<open>as\<close> from the initial state and any
  further calls \<open>bs\<close>, with any preload times, negative ones too. From the state after
  \<open>as\<close> to the state after \<open>bs\<close>, the total request count, the total hit count and the
  total miss count do not decrease; the total preload time does not decrease if no call
  of \<open>as\<close> or \<open>bs\<close> records a negative preload time; and if \<open>bs\<close> holds no
  \<open>print_hit_rate\<close>, all four totals are unchanged.
\<close>

theorem totals_monotone:
  assumes "s = run initial as" and "s' = run s bs"
  shows "total_count s \<le> total_count s'
    \<and> total_hit_count s \<le> total_hit_count s'
    \<and> total_miss_count s \<le> total_miss_count s'
    \<and> (list_all nonneg_preload (as @ bs) \<longrightarrow> total_preload_time s \<le> total_preload_time s')
    \<and> (list_all (\<lambda>c. \<not> is_print c) bs \<longrightarrow>
          total_count s' = total_count s \<and> total_hit_count s' = total_hit_count s
          \<and> total_miss_count s' = total_miss_count s
          \<and> total_preload_time s' = total_preload_time s)"
proof -
  have ok: "counters_ok s"
    unfolding assms(1) by (rule counters_ok_reachable)
  have counts: "total_count s \<le> total_count s' \<and> total_hit_count s \<le> total_hit_count s'
      \<and> total_miss_count s \<le> total_miss_count s'"
    unfolding assms(2) using ok by (rule run_counts_mono)
  have preload: "total_preload_time s \<le> total_preload_time s'"
    if "list_all nonneg_preload (as @ bs)"
  proof -
    from that have a: "list_all nonneg_preload as" and b: "list_all nonneg_preload bs"
      by simp_all
    have "0 \<le> last_cycle_preload_time s"
      unfolding assms(1) using counters_ok_initial _ a
      by (rule run_cycle_preload_nonneg) (simp add: initial_def)
    with ok show ?thesis
      unfolding assms(2) using b by (rule run_preload_mono)
  qed
  have frame: "total_count s' = total_count s \<and> total_hit_count s' = total_hit_count s
      \<and> total_miss_count s' = total_miss_count s \<and> total_preload_time s' = total_preload_time s"
    if "list_all (\<lambda>c. \<not> is_print c) bs"
    unfolding assms(2) using that by (rule run_totals_unchanged)
  from counts preload frame show ?thesis by blast
qed

theorem totals_monotone_witness:
  "list_all nonneg_preload ([Add_count True (1 / 2), Print_hit_rate ''2024-01-01 12:00:00.250000'' 4711] @ [Add_count True 2, Add_count False 0])
   \<and> list_all (\<lambda>c. \<not> is_print c) [Add_count True 2, Add_count False 0]
   \<and> total_preload_time (run initial [Add_count True (1 / 2), Print_hit_rate ''2024-01-01 12:00:00.250000'' 4711])
      \<le> total_preload_time (run (run initial [Add_count True (1 / 2), Print_hit_rate ''2024-01-01 12:00:00.250000'' 4711])
            [Add_count True 2, Add_count False 0])
   \<and> total_count (run (run initial [Add_count True (1 / 2), Print_hit_rate ''2024-01-01 12:00:00.250000'' 4711])
            [Add_count True 2, Add_count False 0])
      = total_count (run initial [Add_count True (1 / 2), Print_hit_rate ''2024-01-01 12:00:00.250000'' 4711])"
  using totals_monotone [of "run initial [Add_count True (1 / 2), Print_hit_rate ''2024-01-01 12:00:00.250000'' 4711]"
      "[Add_count True (1 / 2), Print_hit_rate ''2024-01-01 12:00:00.250000'' 4711]"
      "run (run initial [Add_count True (1 / 2), Print_hit_rate ''2024-01-01 12:00:00.250000'' 4711])
            [Add_count True 2, Add_count False 0]"
      "[Add_count True 2, Add_count False 0]"]
  by simp

text \<open>
  As stated, with negative preload times allowed, the claim fails for the total preload
  time: after \<^verbatim>\<open>add_count(True, -1)\<close> the call of \<open>print_hit_rate\<close> takes it from
  0 to -1.
\<close>

theorem total_preload_time_counterexample:
  "total_preload_time (run initial [Add_count True (- 1), Print_hit_rate ''2024-01-01 12:00:00.250000'' 4711])
   < total_preload_time (run initial [Add_count True (- 1)])"
  by (simp add: print_hit_rate_totals add_count_def initial_def)

text \<open>
  Claim C1, as amended. After every list of calls from the initial state in which each
  \<open>print_hit_rate\<close> closes a cycle with at least one \<open>add_count\<close>, the total request
  count is the sum of the total hit count and the total miss count. Every prefix of such
  a list is such a list, so this holds after each \<open>print_hit_rate\<close> of the list.
\<close>

theorem totals_balanced:
  assumes "nonempty_flushes False cs"
  shows "total_count (run initial cs)
         = total_hit_count (run initial cs) + total_miss_count (run initial cs)"
  using assms by (rule totals_balanced_run) (simp_all add: initial_def)

theorem totals_balanced_witness:
  "nonempty_flushes False [Add_count True (1 / 2), Add_count False 0, Print_hit_rate ''2024-01-01 12:00:00.250000'' 4711]
   \<and> total_count (run initial [Add_count True (1 / 2), Add_count False 0, Print_hit_rate ''2024-01-01 12:00:00.250000'' 4711]) = 2
   \<and> total_hit_count (run initial [Add_count True (1 / 2), Add_count False 0, Print_hit_rate ''2024-01-01 12:00:00.250000'' 4711]) = 1
   \<and> total_miss_count (run initial [Add_count True (1 / 2), Add_count False 0, Print_hit_rate ''2024-01-01 12:00:00.250000'' 4711]) = 1"
  using totals_balanced [of "[Add_count True (1 / 2), Add_count False 0, Print_hit_rate ''2024-01-01 12:00:00.250000'' 4711]"]
  by (simp add: print_hit_rate_totals add_count_def initial_def)

text \<open>
  As stated, with empty cycles included, the claim fails on the first call from the
  initial state: the total request count is 1, the hits and misses are 0.
\<close>

theorem totals_balanced_counterexample:
  "total_count (run initial [Print_hit_rate ''2024-01-01 12:00:00.250000'' 4711])
   \<noteq> total_hit_count (run initial [Print_hit_rate ''2024-01-01 12:00:00.250000'' 4711])
     + total_miss_count (run initial [Print_hit_rate ''2024-01-01 12:00:00.250000'' 4711])"
  by (simp add: print_hit_rate_totals cycle_request_count_def initial_def)

text \<open>
  Claim C9. After any number of cycles from the initial state, each with any
  \<open>add_count\<close> calls and closed by \<open>print_hit_rate\<close>, the total hit count is the sum of
  the cycles' hit counts and the total miss count the sum of their miss counts. The hit
  and miss counts of a cycle are the values of the two cycle counters when the cycle is
  closed: after the \<open>add_count\<close> calls \<open>rs\<close> of one more cycle the counters hold the
  number of hits and of misses in \<open>rs\<close>.
\<close>

theorem totals_are_cycle_sums:
  "total_hit_count (run initial (cycles_calls cys)) = sum_list (map cycle_hits cys)
   \<and> total_miss_count (run initial (cycles_calls cys)) = sum_list (map cycle_misses cys)
   \<and> last_cycle_hit_count
        (run (run initial (cycles_calls cys)) (map (\<lambda>(is_cache, p). Add_count is_cache p) rs))
       = cycle_hits (rs, now, pid)
   \<and> last_cycle_miss_count
        (run (run initial (cycles_calls cys)) (map (\<lambda>(is_cache, p). Add_count is_cache p) rs))
       = cycle_misses (rs, now, pid)"
proof -
  have "cycle_start (run initial (cycles_calls cys))"
    using run_cycles [OF cycle_start_initial, of cys] by simp
  then have "last_cycle_hit_count (run initial (cycles_calls cys)) = 0"
    and "last_cycle_miss_count (run initial (cycles_calls cys)) = 0"
    by (simp_all add: cycle_start_def)
  then show ?thesis
    using run_cycles [OF cycle_start_initial, of cys]
    by (simp add: run_add_counts cycle_hits_def cycle_misses_def initial_def)
qed

text \<open>
  Claim C10. After \<open>k\<close> cycles from the initial state the total request count is the
  sum over the cycles of the larger of the cycle's request count and 1. So it is at least
  \<open>k\<close> and at least the sum of the total hit and miss counts, and it is equal to that sum
  exactly when no cycle was empty.
\<close>

theorem total_count_is_sum_of_request_counts:
  "total_count (run initial (cycles_calls cys))
     = sum_list (map (\<lambda>cy. max (cycle_hits cy + cycle_misses cy) 1) cys)
   \<and> int (length cys) \<le> total_count (run initial (cycles_calls cys))
   \<and> total_hit_count (run initial (cycles_calls cys))
       + total_miss_count (run initial (cycles_calls cys))
      \<le> total_count (run initial (cycles_calls cys))
   \<and> (total_count (run initial (cycles_calls cys))
        = total_hit_count (run initial (cycles_calls cys))
          + total_miss_count (run initial (cycles_calls cys))
      \<longleftrightarrow> (\<forall>cy \<in> set cys. fst cy \<noteq> []))"
proof -
  have tc: "total_count (run initial (cycles_calls cys))
      = sum_list (map (\<lambda>cy. max (cycle_hits cy + cycle_misses cy) 1) cys)"
    and th: "total_hit_count (run initial (cycles_calls cys)) = sum_list (map cycle_hits cys)"
    and tm: "total_miss_count (run initial (cycles_calls cys)) = sum_list (map cycle_misses cys)"
    using run_cycles [OF cycle_start_initial, of cys] by (simp_all add: initial_def)
  show ?thesis
    unfolding tc th tm
    using sum_requests_bounds [of cys] sum_requests_exact [of cys] by simp
qed

theorem total_count_is_sum_of_request_counts_witness:
  "fst ([(True, 1 / 2 :: rat), (False, 0)], ''2024-01-01 12:00:00.250000'', 4711 :: int) \<noteq> []
   \<and> fst ([(True, 1 :: rat)], ''2024-01-01 12:00:10.250000'', 4711 :: int) \<noteq> []
   \<and> total_count (run initial (cycles_calls
        [([(True, 1 / 2), (False, 0)], ''2024-01-01 12:00:00.250000'', 4711), ([(True, 1)], ''2024-01-01 12:00:10.250000'', 4711)])) = 3
   \<and> total_count (run initial (cycles_calls
        [([(True, 1 / 2), (False, 0)], ''2024-01-01 12:00:00.250000'', 4711), ([(True, 1)], ''2024-01-01 12:00:10.250000'', 4711)]))
     = total_hit_count (run initial (cycles_calls
        [([(True, 1 / 2), (False, 0)], ''2024-01-01 12:00:00.250000'', 4711), ([(True, 1)], ''2024-01-01 12:00:10.250000'', 4711)]))
       + total_miss_count (run initial (cycles_calls
        [([(True, 1 / 2), (False, 0)], ''2024-01-01 12:00:00.250000'', 4711), ([(True, 1)], ''2024-01-01 12:00:10.250000'', 4711)]))"
  using total_count_is_sum_of_request_counts
    [of "[([(True, 1 / 2), (False, 0)], ''2024-01-01 12:00:00.250000'', 4711), ([(True, 1)], ''2024-01-01 12:00:10.250000'', 4711)]"]
  by (simp add: cycle_hits_def cycle_misses_def)

section \<open>The scenario of the specification\<close>

text \<open>
  Claim C2, as amended. From the initial state, after \<^verbatim>\<open>set_params("cache-A")\<close>,
  \<^verbatim>\<open>add_count(True, 0.5)\<close>, \<^verbatim>\<open>add_count(True, 1.5)\<close> and
  \<^verbatim>\<open>add_count(False, 0)\<close>, the call of \<open>print_hit_rate\<close> prints for the cycle a
  request count of 3, 2 hits, 1 miss, a hit rate of 66.67%, a miss rate of 33.33% and an
  average preload time of 0.67 s, which is 2.0 / 3: the preload time is divided by the
  request count, not by the hit count. The totals it prints are the same values. After
  \<^verbatim>\<open>add_count(True, 1.0)\<close> the next call prints for the cycle 1 hit, 0 misses and a
  hit rate of 100.00%, and as totals 4 requests, 3 hits and 1 miss. The last two
  equations show the two lines as printed at one time of day by process 4711.
\<close>

theorem scenario_two_cycles:
  "print_hit_rate now pid (run initial scenario_cycle1) =
     (Inr (print_mesg now pid ''user memory''
        \<lparr>request_count = 3, hit_count = 2, miss_count = 1,
         hit_rate = 200 / 3, miss_rate = 100 / 3, avg_preload_time = 2 / 3\<rparr>
        \<lparr>request_count = 3, hit_count = 2, miss_count = 1,
         hit_rate = 200 / 3, miss_rate = 100 / 3, avg_preload_time = 2 / 3\<rparr>),
      initial\<lparr>cube_root_dir := ''cache-A'', total_count := 3, total_hit_count := 2,
        total_miss_count := 1, total_preload_time := 2\<rparr>)
   \<and> print_hit_rate now' pid'
       (run (initial\<lparr>cube_root_dir := ''cache-A'', total_count := 3, total_hit_count := 2,
          total_miss_count := 1, total_preload_time := 2\<rparr>) scenario_cycle2) =
     (Inr (print_mesg now' pid' ''user memory''
        \<lparr>request_count = 1, hit_count = 1, miss_count = 0,
         hit_rate = 100, miss_rate = 0, avg_preload_time = 1\<rparr>
        \<lparr>request_count = 4, hit_count = 3, miss_count = 1,
         hit_rate = 75, miss_rate = 25, avg_preload_time = 3 / 4\<rparr>),
      initial\<lparr>cube_root_dir := ''cache-A'', total_count := 4, total_hit_count := 3,
        total_miss_count := 1, total_preload_time := 3\<rparr>)
   \<and> print_mesg ''2024-01-01 12:00:00.250000'' 4711 ''user memory''
        \<lparr>request_count = 3, hit_count = 2, miss_count = 1,
         hit_rate = 200 / 3, miss_rate = 100 / 3, avg_preload_time = 2 / 3\<rparr>
        \<lparr>request_count = 3, hit_count = 2, miss_count = 1,
         hit_rate = 200 / 3, miss_rate = 100 / 3, avg_preload_time = 2 / 3\<rparr>
     = ''time:2024-01-01 12:00:00.250000 pid:4711 cube_cache_dir:user memory last_cycle_metrics:([request_count:3 hit_count:2 miss_count:1 hit_rate:66.67% miss_rate:33.33%  avg_preload_time:0.67 s])  sum_metrics:([request_count:3 hit_count:2 miss_count:1 hit_rate:66.67% miss_rate:33.33% avg_preload_time:0.67 s]) ''
   \<and> print_mesg ''2024-01-01 12:00:10.250000'' 4711 ''user memory''
        \<lparr>request_count = 1, hit_count = 1, miss_count = 0,
         hit_rate = 100, miss_rate = 0, avg_preload_time = 1\<rparr>
        \<lparr>request_count = 4, hit_count = 3, miss_count = 1,
         hit_rate = 75, miss_rate = 25, avg_preload_time = 3 / 4\<rparr>
     = ''time:2024-01-01 12:00:10.250000 pid:4711 cube_cache_dir:user memory last_cycle_metrics:([request_count:1 hit_count:1 miss_count:0 hit_rate:100.00% miss_rate:0.00%  avg_preload_time:1.00 s])  sum_metrics:([request_count:4 hit_count:3 miss_count:1 hit_rate:75.00% miss_rate:25.00% avg_preload_time:0.75 s]) ''"
proof (intro conjI)
  show "print_hit_rate now pid (run initial scenario_cycle1) =
     (Inr (print_mesg now pid ''user memory''
        \<lparr>request_count = 3, hit_count = 2, miss_count = 1,
         hit_rate = 200 / 3, miss_rate = 100 / 3, avg_preload_time = 2 / 3\<rparr>
        \<lparr>request_count = 3, hit_count = 2, miss_count = 1,
         hit_rate = 200 / 3, miss_rate = 100 / 3, avg_preload_time = 2 / 3\<rparr>),
      initial\<lparr>cube_root_dir := ''cache-A'', total_count := 3, total_hit_count := 2,
        total_miss_count := 1, total_preload_time := 2\<rparr>)"
    by (simp add: scenario_cycle1_def set_params_def add_count_def initial_def
        print_hit_rate_def cycle_request_count_def Let_def rates_def bind_err_def truediv_def)
  show "print_hit_rate now' pid'
       (run (initial\<lparr>cube_root_dir := ''cache-A'', total_count := 3, total_hit_count := 2,
          total_miss_count := 1, total_preload_time := 2\<rparr>) scenario_cycle2) =
     (Inr (print_mesg now' pid' ''user memory''
        \<lparr>request_count = 1, hit_count = 1, miss_count = 0,
         hit_rate = 100, miss_rate = 0, avg_preload_time = 1\<rparr>
        \<lparr>request_count = 4, hit_count = 3, miss_count = 1,
         hit_rate = 75, miss_rate = 25, avg_preload_time = 3 / 4\<rparr>),
      initial\<lparr>cube_root_dir := ''cache-A'', total_count := 4, total_hit_count := 3,
        total_miss_count := 1, total_preload_time := 3\<rparr>)"
    by (simp add: scenario_cycle2_def set_params_def add_count_def initial_def
        print_hit_rate_def cycle_request_count_def Let_def rates_def bind_err_def truediv_def)
qed (simp_all add: print_mesg_def str_int_def str_nat.simps digit_def format_2f_values)

text \<open>
  As stated, with an average preload time of 1.0 s in the first report, the claim fails:
  the line printed in the first cycle is not the line with that average.
\<close>

theorem scenario_avg_preload_counterexample:
  "fst (print_hit_rate ''2024-01-01 12:00:00.250000'' 4711 (run initial scenario_cycle1))
   \<noteq> Inr (print_mesg ''2024-01-01 12:00:00.250000'' 4711 ''user memory''
        \<lparr>request_count = 3, hit_count = 2, miss_count = 1,
         hit_rate = 200 / 3, miss_rate = 100 / 3, avg_preload_time = 1\<rparr>
        \<lparr>request_count = 3, hit_count = 2, miss_count = 1,
         hit_rate = 200 / 3, miss_rate = 100 / 3, avg_preload_time = 1\<rparr>)"
proof -
  have "fst (print_hit_rate ''2024-01-01 12:00:00.250000'' 4711 (run initial scenario_cycle1))
    = Inr (print_mesg ''2024-01-01 12:00:00.250000'' 4711 ''user memory''
        \<lparr>request_count = 3, hit_count = 2, miss_count = 1,
         hit_rate = 200 / 3, miss_rate = 100 / 3, avg_preload_time = 2 / 3\<rparr>
        \<lparr>request_count = 3, hit_count = 2, miss_count = 1,
         hit_rate = 200 / 3, miss_rate = 100 / 3, avg_preload_time = 2 / 3\<rparr>)"
    by (simp add: scenario_cycle1_def set_params_def add_count_def initial_def
        print_hit_rate_def cycle_request_count_def Let_def rates_def bind_err_def truediv_def)
  moreover have "print_mesg ''2024-01-01 12:00:00.250000'' 4711 ''user memory''
        \<lparr>request_count = 3, hit_count = 2, miss_count = 1,
         hit_rate = 200 / 3, miss_rate = 100 / 3, avg_preload_time = 2 / 3\<rparr>
        \<lparr>request_count = 3, hit_count = 2, miss_count = 1,
         hit_rate = 200 / 3, miss_rate = 100 / 3, avg_preload_time = 2 / 3\<rparr>
   \<noteq> print_mesg ''2024-01-01 12:00:00.250000'' 4711 ''user memory''
        \<lparr>request_count = 3, hit_count = 2, miss_count = 1,
         hit_rate = 200 / 3, miss_rate = 100 / 3, avg_preload_time = 1\<rparr>
        \<lparr>request_count = 3, hit_count = 2, miss_count = 1,
         hit_rate = 200 / 3, miss_rate = 100 / 3, avg_preload_time = 1\<rparr>"
    by (simp add: print_mesg_def str_int_def str_nat.simps digit_def format_2f_values)
  ultimately show ?thesis by simp
qed

end
